theory Spec2Isabelle
  imports Main "HOL-Library.Sublist"
begin

section \<open>Strings\<close>

text \<open>
  A Python \<open>str\<close> is modelled as a \<open>string\<close>. One \<open>char\<close> stands for one code point
  below 256; \<open>of_char\<close> reads its number.
\<close>

text \<open>The character class \<^verbatim>\<open>[a-zA-Z0-9]\<close> of both \<^verbatim>\<open>re.sub\<close> calls, by code point ranges.\<close>

definition is_alnum :: "char \<Rightarrow> bool" where
  "is_alnum c =
     (let n = (of_char c :: nat)
      in (97 \<le> n \<and> n \<le> 122) \<or> (65 \<le> n \<and> n \<le> 90) \<or> (48 \<le> n \<and> n \<le> 57))"

text \<open>
  \<^verbatim>\<open>re.sub("[^a-zA-Z0-9]", "_", s)\<close>: the pattern matches exactly one character at a time,
  every character outside the class is a match, and each match becomes \<^verbatim>\<open>_\<close>.
\<close>

definition re_sub_non_alnum :: "string \<Rightarrow> string" where
  "re_sub_non_alnum s = map (\<lambda>c. if is_alnum c then c else CHR ''_'') s"

text \<open>
  \<^verbatim>\<open>str.lower()\<close> on code points below 256: the letters \<^verbatim>\<open>A\<close> to \<^verbatim>\<open>Z\<close> and the
  upper-case letters of the range 192 to 222 (all but the multiplication sign, 215)
  move up by 32; every other character is its own lower case.
\<close>

definition lower_char :: "char \<Rightarrow> char" where
  "lower_char c =
     (let n = (of_char c :: nat)
      in if (65 \<le> n \<and> n \<le> 90) \<or> (192 \<le> n \<and> n \<le> 214) \<or> (216 \<le> n \<and> n \<le> 222)
         then char_of (n + 32) else c)"

definition lower :: "string \<Rightarrow> string" where
  "lower s = map lower_char s"

text \<open>The letters and digits, written out.\<close>

definition alphanumerics :: "string" where
  "alphanumerics =
     ''abcdefghijklmnopqrstuvwxyz'' @ ''ABCDEFGHIJKLMNOPQRSTUVWXYZ'' @ ''0123456789''"

section \<open>The platform\<close>

text \<open>
  The helper and the Reset script call into three services of the hosting platform: the
  SQL engine (\<^verbatim>\<open>spark.sql\<close>, \<^verbatim>\<open>spark.catalog\<close>, \<^verbatim>\<open>spark.conf\<close>), the registry of
  streaming queries (\<^verbatim>\<open>spark.streams\<close>) and the file system client (\<^verbatim>\<open>dbutils.fs\<close>).
  None of them is part of the repository. They are modelled by one record of state, by
  the statements the source sends, and by the smallest behaviour that gives these
  statements a meaning:
  \<^item> a catalog is a name bound in \<open>metastore\<close> to the list of its databases, and names
    are compared as they are written;
  \<^item> a statement that names a catalog or a database which does not exist raises, apart
    from the two tolerant forms \<^verbatim>\<open>IF NOT EXISTS\<close> and \<^verbatim>\<open>IF EXISTS\<close>;
  \<^item> every call is recorded, in order, in \<open>trace\<close>, whether it raises or not.
  Output written with \<^verbatim>\<open>print\<close> is not modelled.
\<close>

text \<open>
  The SQL statements of the source, by the text passed to \<^verbatim>\<open>spark.sql\<close>:
  \<^item> \<open>SelectCurrentUser\<close>: \<^verbatim>\<open>SELECT current_user()\<close>
  \<^item> \<open>UseCatalog c\<close>: \<^verbatim>\<open>USE CATALOG {c}\<close>
  \<^item> \<open>Use d\<close>: \<^verbatim>\<open>USE {d}\<close>
  \<^item> \<open>CreateDatabase c d\<close>: \<^verbatim>\<open>CREATE DATABASE IF NOT EXISTS {c}.{d}\<close>
  \<^item> \<open>ShowDatabases\<close>: \<^verbatim>\<open>SHOW DATABASES\<close>
  \<^item> \<open>DropDatabase d\<close>: \<^verbatim>\<open>DROP DATABASE IF EXISTS {d} CASCADE\<close> (in the current catalog)
  \<^item> \<open>DropDatabaseIn c d\<close>: \<^verbatim>\<open>DROP DATABASE IF EXISTS {c}.{d} CASCADE\<close>
\<close>

datatype sql =
    SelectCurrentUser
  | UseCatalog string
  | Use string
  | CreateDatabase string string
  | ShowDatabases
  | DropDatabase string
  | DropDatabaseIn string string

datatype event =
    Sql sql
  | ClearCache
  | StreamStop string
  | StreamAwait string
  | ConfSet string string
  | FsRm string bool

datatype py_error =
    SqlError sql
  | StopError string
  | AwaitError string
  | TypeError

text \<open>
  A streaming query: its name, and whether its \<^verbatim>\<open>stop()\<close> and its
  \<^verbatim>\<open>awaitTermination()\<close> raise.
\<close>

record stream =
  name :: string
  stop_raises :: bool
  await_raises :: bool

record engine =
  current_user :: string
  clock :: int
  metastore :: "string \<rightharpoonup> string list"
  current_catalog :: string
  current_database :: string
  cache :: "string list"
  conf :: "string \<rightharpoonup> string"
  streams_active :: "stream list"
  files :: "string list"
  trace :: "event list"

definition record_event :: "event \<Rightarrow> engine \<Rightarrow> engine" where
  "record_event ev e = e\<lparr>trace := trace e @ [ev]\<rparr>"

text \<open>What the engine does with a statement: the rows it returns (their first column) or the error.\<close>

fun execute :: "sql \<Rightarrow> engine \<Rightarrow> (py_error + string list) \<times> engine" where
  "execute SelectCurrentUser e = (Inr [current_user e], e)"
| "execute (UseCatalog c) e =
     (case metastore e c of
        None \<Rightarrow> (Inl (SqlError (UseCatalog c)), e)
      | Some ds \<Rightarrow> (Inr [], e\<lparr>current_catalog := c, current_database := ''default''\<rparr>))"
| "execute (Use d) e =
     (case metastore e (current_catalog e) of
        None \<Rightarrow> (Inl (SqlError (Use d)), e)
      | Some ds \<Rightarrow>
          if d \<in> set ds then (Inr [], e\<lparr>current_database := d\<rparr>)
          else (Inl (SqlError (Use d)), e))"
| "execute (CreateDatabase c d) e =
     (case metastore e c of
        None \<Rightarrow> (Inl (SqlError (CreateDatabase c d)), e)
      | Some ds \<Rightarrow>
          if d \<in> set ds then (Inr [], e)
          else (Inr [], e\<lparr>metastore := (metastore e)(c \<mapsto> ds @ [d])\<rparr>))"
| "execute ShowDatabases e =
     (case metastore e (current_catalog e) of
        None \<Rightarrow> (Inl (SqlError ShowDatabases), e)
      | Some ds \<Rightarrow> (Inr ds, e))"
| "execute (DropDatabase d) e =
     (case metastore e (current_catalog e) of
        None \<Rightarrow> (Inl (SqlError (DropDatabase d)), e)
      | Some ds \<Rightarrow> (Inr [], e\<lparr>metastore := (metastore e)(current_catalog e \<mapsto> removeAll d ds)\<rparr>))"
| "execute (DropDatabaseIn c d) e =
     (case metastore e c of
        None \<Rightarrow> (Inl (SqlError (DropDatabaseIn c d)), e)
      | Some ds \<Rightarrow> (Inr [], e\<lparr>metastore := (metastore e)(c \<mapsto> removeAll d ds)\<rparr>))"

text \<open>\<^verbatim>\<open>spark.sql(q)\<close>\<close>

definition spark_sql :: "sql \<Rightarrow> engine \<Rightarrow> (py_error + string list) \<times> engine" where
  "spark_sql q e = execute q (record_event (Sql q) e)"

text \<open>\<^verbatim>\<open>spark.catalog.clearCache()\<close>\<close>

definition clearCache :: "engine \<Rightarrow> engine" where
  "clearCache e = (record_event ClearCache e)\<lparr>cache := []\<rparr>"

text \<open>\<^verbatim>\<open>spark.conf.set(k, v)\<close>\<close>

definition conf_set :: "string \<Rightarrow> string \<Rightarrow> engine \<Rightarrow> engine" where
  "conf_set k v e = (record_event (ConfSet k v) e)\<lparr>conf := (conf e)(k \<mapsto> v)\<rparr>"

text \<open>\<^verbatim>\<open>stream.stop()\<close>: a stopped query leaves the list of active queries.\<close>

definition stop :: "stream \<Rightarrow> engine \<Rightarrow> (py_error + unit) \<times> engine" where
  "stop s e =
     (let e1 = record_event (StreamStop (name s)) e
      in if stop_raises s then (Inl (StopError (name s)), e1)
         else (Inr (), e1\<lparr>streams_active := removeAll s (streams_active e1)\<rparr>))"

text \<open>\<^verbatim>\<open>stream.awaitTermination()\<close>\<close>

definition awaitTermination :: "stream \<Rightarrow> engine \<Rightarrow> (py_error + unit) \<times> engine" where
  "awaitTermination s e =
     (let e1 = record_event (StreamAwait (name s)) e
      in if await_raises s then (Inl (AwaitError (name s)), e1) else (Inr (), e1))"



section \<open>The helper\<close>

text \<open>
  The attributes of a \<^verbatim>\<open>DBAcademyHelper\<close> object. \<open>create_db\<close> is \<open>None\<close> until
  \<^verbatim>\<open>init\<close> assigns the attribute.
\<close>

record helper =
  start :: int
  course_name :: string
  lesson :: "string option"
  catalog :: string
  catalogs :: "string list"
  username :: string
  db_name_prefix :: string
  source_db_name :: "string option"
  working_dir_prefix :: string
  db_name :: string
  create_db :: "bool option"

text \<open>
  \<^verbatim>\<open>DBAcademyHelper(lesson, catalog)\<close>, the constructor \<^verbatim>\<open>__init__\<close>. \<^verbatim>\<open>first()[0]\<close>
  raises a \<^verbatim>\<open>TypeError\<close> on a result without rows; \<^verbatim>\<open>if self.lesson\<close> is false for
  \<^verbatim>\<open>None\<close> and for the empty string.
\<close>

definition DBAcademyHelper ::
  "string option \<Rightarrow> string \<Rightarrow> engine \<Rightarrow> (py_error + helper) \<times> engine" where
  "DBAcademyHelper les cat e =
     (let self1 = \<lparr>start = clock e, course_name = ''ncouc'', lesson = les, catalog = cat,
                    catalogs = (if cat = ''hive_metastore'' then [''hive_metastore'']
                                else [cat, ''hive_metastore'']),
                    username = [], db_name_prefix = [], source_db_name = None,
                    working_dir_prefix = [], db_name = [], create_db = None\<rparr>
      in case spark_sql SelectCurrentUser e of
           (Inl err, e1) \<Rightarrow> (Inl err, e1)
         | (Inr [], e1) \<Rightarrow> (Inl TypeError, e1)
         | (Inr (u # rows), e1) \<Rightarrow>
             (let self2 = self1\<lparr>username := u\<rparr>;
                  clean_username = re_sub_non_alnum (username self2);
                  self3 = self2\<lparr>db_name_prefix :=
                            ''dbacademy_'' @ clean_username @ ''_'' @ course_name self2\<rparr>;
                  self4 = self3\<lparr>source_db_name := None\<rparr>;
                  self5 = self4\<lparr>working_dir_prefix :=
                            ''dbfs:/user/'' @ username self4 @ ''/dbacademy/'' @ course_name self4\<rparr>
              in case lesson self5 of
                   None \<Rightarrow> (Inr (self5\<lparr>db_name := db_name_prefix self5\<rparr>), e1)
                 | Some l \<Rightarrow>
                     if l \<noteq> [] then
                       (let self6 = self5\<lparr>lesson := Some (lower l)\<rparr>;
                            clean_lesson = re_sub_non_alnum (lower l)
                        in (Inr (self6\<lparr>db_name := db_name_prefix self6 @ ''_'' @ clean_lesson\<rparr>), e1))
                     else (Inr (self5\<lparr>db_name := db_name_prefix self5\<rparr>), e1)))"

text \<open>The loop of \<^verbatim>\<open>init\<close> over \<^verbatim>\<open>self.catalogs\<close>.\<close>

fun create_databases :: "string list \<Rightarrow> string \<Rightarrow> engine \<Rightarrow> py_error option \<times> engine" where
  "create_databases [] db e = (None, e)"
| "create_databases (c # cs) db e =
     (case spark_sql (CreateDatabase c db) e of
        (Inl err, e1) \<Rightarrow> (Some err, e1)
      | (Inr rows, e1) \<Rightarrow> create_databases cs db e1)"

text \<open>
  \<^verbatim>\<open>init(create_db)\<close>. A method returns the exception it raised, if any, the object
  and the platform as it left them.
\<close>

definition init :: "bool \<Rightarrow> helper \<Rightarrow> engine \<Rightarrow> py_error option \<times> helper \<times> engine" where
  "init cdb self e =
     (let e1 = clearCache e;
          self1 = self\<lparr>create_db := Some cdb\<rparr>
      in if cdb then
           (case create_databases (catalogs self1) (db_name self1) e1 of
              (Some err, e2) \<Rightarrow> (Some err, self1, e2)
            | (None, e2) \<Rightarrow>
                (case spark_sql (UseCatalog (catalog self1)) e2 of
                   (Inl err, e3) \<Rightarrow> (Some err, self1, e3)
                 | (Inr rows, e3) \<Rightarrow>
                     (case spark_sql (Use (db_name self1)) e3 of
                        (Inl err, e4) \<Rightarrow> (Some err, self1, e4)
                      | (Inr rows', e4) \<Rightarrow> (None, self1, e4))))
         else (None, self1, e1))"

text \<open>
  The first loop of \<^verbatim>\<open>cleanup\<close>, over the queries that were active when it started.
  \<^verbatim>\<open>stop()\<close> is outside the \<^verbatim>\<open>try\<close>; whatever \<^verbatim>\<open>awaitTermination()\<close> raises
  is caught by the bare \<^verbatim>\<open>except\<close> and the loop goes on.
\<close>

fun stop_streams :: "stream list \<Rightarrow> engine \<Rightarrow> py_error option \<times> engine" where
  "stop_streams [] e = (None, e)"
| "stop_streams (s # ss) e =
     (case stop s e of
        (Inl err, e1) \<Rightarrow> (Some err, e1)
      | (Inr u, e1) \<Rightarrow>
          (case awaitTermination s e1 of
             (Inl err, e2) \<Rightarrow> stop_streams ss e2
           | (Inr u', e2) \<Rightarrow> stop_streams ss e2))"

text \<open>
  The second loop of \<^verbatim>\<open>cleanup\<close>, over \<^verbatim>\<open>self.catalogs\<close>. The test
  \<^verbatim>\<open>filter(databaseName == db).count() == 1\<close> counts the rows equal to the name.
\<close>

fun drop_databases :: "string list \<Rightarrow> string \<Rightarrow> engine \<Rightarrow> py_error option \<times> engine" where
  "drop_databases [] db e = (None, e)"
| "drop_databases (c # cs) db e =
     (case spark_sql (UseCatalog c) e of
        (Inl err, e1) \<Rightarrow> (Some err, e1)
      | (Inr rows0, e1) \<Rightarrow>
          (case spark_sql ShowDatabases e1 of
             (Inl err, e2) \<Rightarrow> (Some err, e2)
           | (Inr rows, e2) \<Rightarrow>
               if length (filter (\<lambda>databaseName. databaseName = db) rows) = 1 then
                 (case spark_sql (DropDatabase db) e2 of
                    (Inl err, e3) \<Rightarrow> (Some err, e3)
                  | (Inr rows', e3) \<Rightarrow> drop_databases cs db e3)
               else drop_databases cs db e2))"

text \<open>\<^verbatim>\<open>cleanup()\<close>\<close>

definition cleanup :: "helper \<Rightarrow> engine \<Rightarrow> py_error option \<times> helper \<times> engine" where
  "cleanup self e =
     (case stop_streams (streams_active e) e of
        (Some err, e1) \<Rightarrow> (Some err, self, e1)
      | (None, e1) \<Rightarrow>
          (case drop_databases (catalogs self) (db_name self) e1 of
             (r, e2) \<Rightarrow> (r, self, e2)))"

text \<open>\<^verbatim>\<open>conclude_setup()\<close>; the elapsed time is only printed.\<close>

definition conclude_setup :: "helper \<Rightarrow> engine \<Rightarrow> py_error option \<times> helper \<times> engine" where
  "conclude_setup self e =
     (let e1 = conf_set ''da.catalog'' (catalog self) e;
          e2 = conf_set ''da.db_name'' (db_name self) e1
      in (None, self, e2))"

section \<open>The Reset script\<close>




section \<open>A platform to run the code on\<close>

text \<open>
  One user, two catalogs, two active streaming queries of which the first fails while it
  terminates, and a few files.
\<close>

definition bronze :: stream where
  "bronze = \<lparr>name = ''bronze'', stop_raises = False, await_raises = True\<rparr>"

definition silver :: stream where
  "silver = \<lparr>name = ''silver'', stop_raises = False, await_raises = False\<rparr>"

definition jane :: engine where
  "jane =
     \<lparr>current_user = ''jane.doe@example.com'',
      clock = 1667000000,
      metastore =
        [''hive_metastore'' \<mapsto>
           [''default'', ''dbacademy_jane_doe_example_com_ncouc'',
            ''dbacademy_jane_doe_example_com_ncouc_intro'', ''sales''],
         ''main'' \<mapsto> [''default'', ''dbacademy_jane_doe_example_com_ncouc_intro'']],
      current_catalog = ''hive_metastore'',
      current_database = ''default'',
      cache = [''sales.orders''],
      conf = Map.empty,
      streams_active = [bronze, silver],
      files = [''dbfs:/user/jane.doe@example.com/dbacademy/ncouc/raw'', ''dbfs:/tmp/x''],
      trace = []\<rparr>"

text \<open>The object that \<^verbatim>\<open>DBAcademyHelper(catalog="main")\<close> builds for this user.\<close>

definition DA_main :: helper where
  "DA_main =
     \<lparr>start = 1667000000, course_name = ''ncouc'', lesson = None,
      catalog = ''main'', catalogs = [''main'', ''hive_metastore''],
      username = ''jane.doe@example.com'',
      db_name_prefix = ''dbacademy_jane_doe_example_com_ncouc'',
      source_db_name = None,
      working_dir_prefix = ''dbfs:/user/jane.doe@example.com/dbacademy/ncouc'',
      db_name = ''dbacademy_jane_doe_example_com_ncouc'',
      create_db = None\<rparr>"

section \<open>Names\<close>

lemma spark_sql_SelectCurrentUser:
  "spark_sql SelectCurrentUser e = (Inr [current_user e], record_event (Sql SelectCurrentUser) e)"
  by (simp add: spark_sql_def record_event_def)

text \<open>The constructor returns an object, and these are its attributes.\<close>

lemma DBAcademyHelper_returns:
  "\<exists>h. DBAcademyHelper les cat e = (Inr h, record_event (Sql SelectCurrentUser) e)
     \<and> start h = clock e
     \<and> course_name h = ''ncouc''
     \<and> catalog h = cat
     \<and> catalogs h =
          (if cat = ''hive_metastore'' then [''hive_metastore''] else [cat, ''hive_metastore''])
     \<and> username h = current_user e
     \<and> db_name_prefix h = ''dbacademy_'' @ re_sub_non_alnum (current_user e) @ ''_ncouc''
     \<and> working_dir_prefix h = ''dbfs:/user/'' @ current_user e @ ''/dbacademy/ncouc''
     \<and> db_name h =
          (case les of
             None \<Rightarrow> db_name_prefix h
           | Some l \<Rightarrow>
               if l \<noteq> [] then db_name_prefix h @ ''_'' @ re_sub_non_alnum (lower l)
               else db_name_prefix h)
     \<and> lesson h = (case les of None \<Rightarrow> None | Some l \<Rightarrow> Some (lower l))
     \<and> source_db_name h = None \<and> create_db h = None"
  by (cases les) (simp_all add: DBAcademyHelper_def spark_sql_SelectCurrentUser Let_def lower_def)

text \<open>The class of the pattern holds the 62 letters and digits and nothing else.\<close>

lemma is_alnum_iff: "is_alnum c \<longleftrightarrow> c \<in> set alphanumerics"
proof
  assume a: "is_alnum c"
  define n :: nat where "n = of_char c"
  have c: "c = char_of n" using n_def by simp
  from a have "n \<in> {97..<123} \<union> ({65..<91} \<union> {48..<58})"
    by (auto simp: is_alnum_def Let_def n_def)
  then have "n \<in> set ([97..<123] @ [65..<91] @ [48..<58])"
    by (simp only: set_append set_upt)
  then have "char_of n \<in> set (map char_of ([97..<123] @ [65..<91] @ [48..<58]))"
    by (simp only: set_map imageI)
  also have "map char_of ([97..<123] @ [65..<91] @ [48..<58::nat]) = alphanumerics"
    by code_simp
  finally show "c \<in> set alphanumerics" using c by simp
next
  assume "c \<in> set alphanumerics"
  then show "is_alnum c"
    by (auto simp: alphanumerics_def is_alnum_def)
qed

lemma re_sub_non_alnum_nth:
  "i < length s \<Longrightarrow>
   re_sub_non_alnum s ! i = (if s ! i \<in> set alphanumerics then s ! i else CHR ''_'')"
  by (simp add: re_sub_non_alnum_def is_alnum_iff)

text \<open>
  Claim C2. Whoever the user is, whatever the catalog and the lesson (also when there is
  none), the constructor returns an object whose \<open>db_name\<close> starts with its
  \<open>db_name_prefix\<close>.
\<close>

theorem db_name_starts_with_db_name_prefix:
  "\<exists>h e'. DBAcademyHelper les cat e = (Inr h, e') \<and> prefix (db_name_prefix h) (db_name h)"
proof -
  obtain h where h: "DBAcademyHelper les cat e = (Inr h, record_event (Sql SelectCurrentUser) e)"
    and d: "db_name h =
          (case les of
             None \<Rightarrow> db_name_prefix h
           | Some l \<Rightarrow>
               if l \<noteq> [] then db_name_prefix h @ ''_'' @ re_sub_non_alnum (lower l)
               else db_name_prefix h)"
    using DBAcademyHelper_returns [of les cat e] by blast
  have "prefix (db_name_prefix h) (db_name h)"
    unfolding d by (cases les) simp_all
  with h show ?thesis by blast
qed

theorem db_name_starts_with_db_name_prefix_witness:
  "\<exists>h e'. DBAcademyHelper (Some ''Intro 1'') ''main'' jane = (Inr h, e')
     \<and> prefix (db_name_prefix h) (db_name h)"
  by (rule db_name_starts_with_db_name_prefix)

text \<open>
  Claim C3. The constructor builds \<open>db_name_prefix\<close> around the sanitized user name. The
  sanitized name is as long as the user name; at every position it holds the character of
  the user name when that is one of the 62 letters and digits, and \<^verbatim>\<open>_\<close> otherwise.
\<close>

theorem sanitization_of_the_username:
  "\<exists>h e' clean_username.
     DBAcademyHelper les cat e = (Inr h, e')
     \<and> db_name_prefix h = ''dbacademy_'' @ clean_username @ ''_ncouc''
     \<and> clean_username = re_sub_non_alnum (current_user e)
     \<and> length clean_username = length (current_user e)
     \<and> (\<forall>i < length (current_user e).
           clean_username ! i =
             (if current_user e ! i \<in> set alphanumerics then current_user e ! i else CHR ''_''))"
  using DBAcademyHelper_returns [of les cat e]
  by (auto simp: re_sub_non_alnum_nth) (simp add: re_sub_non_alnum_def)

theorem sanitization_of_the_username_witness:
  "\<exists>h e'.
     DBAcademyHelper None ''main'' jane = (Inr h, e')
     \<and> db_name_prefix h = ''dbacademy_jane_doe_example_com_ncouc''"
proof -
  obtain h e' cu where h: "DBAcademyHelper None ''main'' jane = (Inr h, e')"
     and p: "db_name_prefix h = ''dbacademy_'' @ cu @ ''_ncouc''"
     and c: "cu = re_sub_non_alnum (current_user jane)"
    using sanitization_of_the_username [of None "''main''" jane] by blast
  have "cu = ''jane_doe_example_com''"
    unfolding c by (simp add: jane_def re_sub_non_alnum_def is_alnum_def)
  with h p show ?thesis by simp
qed

text \<open>
  Claim C4. With the catalog \<^verbatim>\<open>hive_metastore\<close> the list of catalogs is that one name;
  with any other catalog it is the catalog followed by \<^verbatim>\<open>hive_metastore\<close>. The methods
  \<^verbatim>\<open>init\<close>, \<^verbatim>\<open>cleanup\<close> and \<^verbatim>\<open>conclude_setup\<close> leave the list as it is, also when
  they raise.
\<close>

theorem catalog_list:
  "(\<exists>h e'. DBAcademyHelper les cat e = (Inr h, e')
      \<and> catalogs h =
           (if cat = ''hive_metastore'' then [''hive_metastore''] else [cat, ''hive_metastore'']))
   \<and> catalogs (fst (snd (init cdb self e))) = catalogs self
   \<and> catalogs (fst (snd (cleanup self e))) = catalogs self
   \<and> catalogs (fst (snd (conclude_setup self e))) = catalogs self"
proof -
  have "\<exists>h e'. DBAcademyHelper les cat e = (Inr h, e')
      \<and> catalogs h =
           (if cat = ''hive_metastore'' then [''hive_metastore''] else [cat, ''hive_metastore''])"
    using DBAcademyHelper_returns [of les cat e] by blast
  moreover have "catalogs (fst (snd (init cdb self e))) = catalogs self"
    by (simp add: init_def Let_def split: prod.splits option.splits sum.splits)
  moreover have "catalogs (fst (snd (cleanup self e))) = catalogs self"
    by (simp add: cleanup_def split: prod.splits option.splits)
  moreover have "catalogs (fst (snd (conclude_setup self e))) = catalogs self"
    by (simp add: conclude_setup_def Let_def)
  ultimately show ?thesis by blast
qed

theorem catalog_list_witness:
  "(\<exists>h e'. DBAcademyHelper None ''main'' jane = (Inr h, e')
      \<and> catalogs h = [''main'', ''hive_metastore''])
   \<and> (\<exists>h e'. DBAcademyHelper None ''hive_metastore'' jane = (Inr h, e')
      \<and> catalogs h = [''hive_metastore''])"
  using catalog_list [of None "''main''" jane] catalog_list [of None "''hive_metastore''" jane]
  by simp

text \<open>
  Claim C5, as the code has it. Without a lesson, or with the empty one, \<open>db_name\<close> is
  \<open>db_name_prefix\<close>. With a lesson it is \<open>db_name_prefix\<close>, an underscore, and the lesson
  put in lower case first and sanitized then.
\<close>

theorem db_name_with_lesson:
  "\<exists>h e'. DBAcademyHelper les cat e = (Inr h, e')
     \<and> db_name h =
          (case les of
             None \<Rightarrow> db_name_prefix h
           | Some l \<Rightarrow>
               if l = [] then db_name_prefix h
               else db_name_prefix h @ ''_'' @ re_sub_non_alnum (lower l))"
proof -
  obtain h where h: "DBAcademyHelper les cat e = (Inr h, record_event (Sql SelectCurrentUser) e)"
    and d: "db_name h =
          (case les of
             None \<Rightarrow> db_name_prefix h
           | Some l \<Rightarrow>
               if l \<noteq> [] then db_name_prefix h @ ''_'' @ re_sub_non_alnum (lower l)
               else db_name_prefix h)"
    using DBAcademyHelper_returns [of les cat e] by blast
  from d have "db_name h =
          (case les of
             None \<Rightarrow> db_name_prefix h
           | Some l \<Rightarrow>
               if l = [] then db_name_prefix h
               else db_name_prefix h @ ''_'' @ re_sub_non_alnum (lower l))"
    by (cases les) simp_all
  with h show ?thesis by blast
qed

theorem db_name_with_lesson_witness:
  "\<exists>h e'. DBAcademyHelper (Some ''Intro 1'') ''main'' jane = (Inr h, e')
     \<and> db_name h = db_name_prefix h @ ''_intro_1''"
proof -
  have "re_sub_non_alnum (lower ''Intro 1'') = ''intro_1''"
    by code_simp
  then show ?thesis
    using db_name_with_lesson [of "Some ''Intro 1''" "''main''" jane] by simp
qed

text \<open>
  Claim C5 as it is written sanitizes the lesson as it was given. For the lesson \<^verbatim>\<open>A\<close>
  that would end the name in \<^verbatim>\<open>_A\<close>; the constructor ends it in \<^verbatim>\<open>_a\<close>.
\<close>

theorem upper_case_lesson_counterexample:
  "fst (DBAcademyHelper (Some ''A'') ''hive_metastore'' jane) =
     Inr \<lparr>start = 1667000000, course_name = ''ncouc'', lesson = Some ''a'',
          catalog = ''hive_metastore'', catalogs = [''hive_metastore''],
          username = ''jane.doe@example.com'',
          db_name_prefix = ''dbacademy_jane_doe_example_com_ncouc'',
          source_db_name = None,
          working_dir_prefix = ''dbfs:/user/jane.doe@example.com/dbacademy/ncouc'',
          db_name = ''dbacademy_jane_doe_example_com_ncouc_a'',
          create_db = None\<rparr>
   \<and> ''dbacademy_jane_doe_example_com_ncouc_a'' \<noteq>
       ''dbacademy_jane_doe_example_com_ncouc'' @ ''_'' @ re_sub_non_alnum ''A''"
proof -
  have l: "lower ''A'' = ''a''" by code_simp
  have a: "re_sub_non_alnum ''a'' = ''a''" "re_sub_non_alnum ''A'' = ''A''"
    by (simp_all add: re_sub_non_alnum_def is_alnum_def)
  have u: "re_sub_non_alnum ''jane.doe@example.com'' = ''jane_doe_example_com''"
    by (simp add: re_sub_non_alnum_def is_alnum_def)
  show ?thesis
    by (simp add: DBAcademyHelper_def spark_sql_SelectCurrentUser jane_def Let_def l a u)
qed

text \<open>
  Claim C8. For the user \<^verbatim>\<open>jane.doe@example.com\<close>, no lesson and the catalog
  \<^verbatim>\<open>hive_metastore\<close>, both \<open>db_name_prefix\<close> and \<open>db_name\<close> are
  \<^verbatim>\<open>dbacademy_jane_doe_example_com_ncouc\<close> and the list of catalogs is
  \<^verbatim>\<open>hive_metastore\<close> alone, whatever else the state of the platform is.
\<close>

theorem example_of_the_specification:
  "\<exists>h e'. DBAcademyHelper None ''hive_metastore'' (e\<lparr>current_user := ''jane.doe@example.com''\<rparr>)
              = (Inr h, e')
     \<and> db_name_prefix h = ''dbacademy_jane_doe_example_com_ncouc''
     \<and> db_name h = ''dbacademy_jane_doe_example_com_ncouc''
     \<and> catalogs h = [''hive_metastore'']"
proof -
  have u: "re_sub_non_alnum ''jane.doe@example.com'' = ''jane_doe_example_com''"
    by (simp add: re_sub_non_alnum_def is_alnum_def)
  show ?thesis
    using DBAcademyHelper_returns [of None "''hive_metastore''" "e\<lparr>current_user := ''jane.doe@example.com''\<rparr>"]
    by (auto simp: u)
qed

text \<open>
  Claim C9. \<open>working_dir_prefix\<close> is built from the user name as the platform gave it,
  with every character kept, while \<open>db_name_prefix\<close> is built from the sanitized one.
\<close>

theorem working_dir_prefix_keeps_the_username:
  "\<exists>h e'. DBAcademyHelper les cat e = (Inr h, e')
     \<and> working_dir_prefix h = ''dbfs:/user/'' @ current_user e @ ''/dbacademy/ncouc''
     \<and> db_name_prefix h = ''dbacademy_'' @ re_sub_non_alnum (current_user e) @ ''_ncouc''"
  using DBAcademyHelper_returns [of les cat e] by blast

theorem working_dir_prefix_keeps_the_username_witness:
  "\<exists>h e'. DBAcademyHelper None ''hive_metastore'' jane = (Inr h, e')
     \<and> working_dir_prefix h = ''dbfs:/user/jane.doe@example.com/dbacademy/ncouc''
     \<and> db_name_prefix h = ''dbacademy_jane_doe_example_com_ncouc''"
proof -
  have u: "re_sub_non_alnum ''jane.doe@example.com'' = ''jane_doe_example_com''"
    by (simp add: re_sub_non_alnum_def is_alnum_def)
  have c: "current_user jane = ''jane.doe@example.com''" by (simp add: jane_def)
  show ?thesis
    using working_dir_prefix_keeps_the_username [of None "''hive_metastore''" jane]
    by (simp add: u c)
qed

section \<open>init\<close>

text \<open>
  Claim C10. \<^verbatim>\<open>init(create_db=False)\<close> returns without an exception. It records the flag
  on the object, empties the cache and makes that one call to the platform: it sends no
  SQL statement, and the catalogs, their databases, the current catalog and the current
  database stay as they were.
\<close>

theorem init_without_create_db:
  "init False self e =
     (None, self\<lparr>create_db := Some False\<rparr>, e\<lparr>cache := [], trace := trace e @ [ClearCache]\<rparr>)"
  by (simp add: init_def clearCache_def record_event_def)

section \<open>Reset\<close>

lemma spark_sql_UseCatalog:
  "metastore e c = Some ds \<Longrightarrow>
   spark_sql (UseCatalog c) e =
     (Inr [], e\<lparr>current_catalog := c, current_database := ''default'',
                trace := trace e @ [Sql (UseCatalog c)]\<rparr>)"
  by (simp add: spark_sql_def record_event_def)

lemma spark_sql_UseCatalog_raises:
  "metastore e c = None \<Longrightarrow>
   spark_sql (UseCatalog c) e = (Inl (SqlError (UseCatalog c)), record_event (Sql (UseCatalog c)) e)"
  by (simp add: spark_sql_def record_event_def)

lemma spark_sql_ShowDatabases:
  "metastore e (current_catalog e) = Some ds \<Longrightarrow>
   spark_sql ShowDatabases e = (Inr ds, e\<lparr>trace := trace e @ [Sql ShowDatabases]\<rparr>)"
  by (simp add: spark_sql_def record_event_def)


lemma spark_sql_DropDatabase:
  "metastore e (current_catalog e) = Some ds \<Longrightarrow>
   spark_sql (DropDatabase d) e =
     (Inr [], e\<lparr>metastore := (metastore e)(current_catalog e \<mapsto> removeAll d ds),
                trace := trace e @ [Sql (DropDatabase d)]\<rparr>)"
  by (simp add: spark_sql_def record_event_def)

















section \<open>cleanup\<close>

lemma stop_streams_step:
  "\<not> stop_raises s \<Longrightarrow>
   stop_streams (s # ss) e =
     stop_streams ss (e\<lparr>streams_active := removeAll s (streams_active e),
                        trace := trace e @ [StreamStop (name s), StreamAwait (name s)]\<rparr>)"
  by (simp add: stop_def awaitTermination_def record_event_def Let_def)

lemma stop_streams_raises:
  "stop_raises s \<Longrightarrow>
   stop_streams (s # ss) e = (Some (StopError (name s)), record_event (StreamStop (name s)) e)"
  by (simp add: stop_def Let_def)

lemma stop_streams_returns:
  "\<forall>s\<in>set ss. \<not> stop_raises s \<Longrightarrow>
   stop_streams ss e =
     (None, e\<lparr>streams_active := filter (\<lambda>s. s \<notin> set ss) (streams_active e),
              trace := trace e @ concat (map (\<lambda>s. [StreamStop (name s), StreamAwait (name s)]) ss)\<rparr>)"
proof (induction ss arbitrary: e)
  case Nil
  then show ?case by simp
next
  case (Cons s ss)
  let ?e1 = "e\<lparr>streams_active := removeAll s (streams_active e),
                trace := trace e @ [StreamStop (name s), StreamAwait (name s)]\<rparr>"
  have f: "filter (\<lambda>t. t \<notin> set ss) (removeAll s (streams_active e)) =
           filter (\<lambda>t. t \<notin> set (s # ss)) (streams_active e)"
    by (induction "streams_active e") (auto simp: removeAll_filter_not_eq intro: filter_cong)
  have "stop_streams (s # ss) e = stop_streams ss ?e1"
    using Cons.prems by (simp add: stop_streams_step del: stop_streams.simps)
  also have "\<dots> = (None, ?e1\<lparr>streams_active := filter (\<lambda>s. s \<notin> set ss) (streams_active ?e1),
              trace := trace ?e1 @ concat (map (\<lambda>s. [StreamStop (name s), StreamAwait (name s)]) ss)\<rparr>)"
    using Cons.prems by (intro Cons.IH) simp
  also have "\<dots> = (None, e\<lparr>streams_active := filter (\<lambda>t. t \<notin> set (s # ss)) (streams_active e),
              trace := trace e @ concat (map (\<lambda>s. [StreamStop (name s), StreamAwait (name s)]) (s # ss))\<rparr>)"
    using f by simp
  finally show ?case .
qed

lemma stop_streams_error:
  "fst (stop_streams ss e) = Some err \<Longrightarrow> \<exists>s\<in>set ss. stop_raises s \<and> err = StopError (name s)"
proof (induction ss arbitrary: e)
  case Nil
  then show ?case by simp
next
  case (Cons s ss)
  show ?case
  proof (cases "stop_raises s")
    case True
    with Cons.prems show ?thesis by (simp add: stop_streams_raises del: stop_streams.simps)
  next
    case False
    with Cons.prems Cons.IH show ?thesis by (fastforce simp: stop_streams_step simp del: stop_streams.simps)
  qed
qed



lemma drop_databases_raises:
  "metastore e c = None \<Longrightarrow>
   drop_databases (c # cs) db e =
     (Some (SqlError (UseCatalog c)), record_event (Sql (UseCatalog c)) e)"
  by (simp add: spark_sql_UseCatalog_raises)

lemma drop_databases_step:
  assumes "metastore e c = Some ds"
  shows "drop_databases (c # cs) db e =
     drop_databases cs db
       (e\<lparr>current_catalog := c, current_database := ''default'',
          metastore := (metastore e)(c \<mapsto>
             (if length (filter (\<lambda>databaseName. databaseName = db) ds) = 1 then removeAll db ds else ds)),
          trace := trace e @ Sql (UseCatalog c) # Sql ShowDatabases #
             (if length (filter (\<lambda>databaseName. databaseName = db) ds) = 1
              then [Sql (DropDatabase db)] else [])\<rparr>)"
proof -
  let ?e1 = "e\<lparr>current_catalog := c, current_database := ''default'',
                trace := trace e @ [Sql (UseCatalog c)]\<rparr>"
  let ?e2 = "?e1\<lparr>trace := trace ?e1 @ [Sql ShowDatabases]\<rparr>"
  let ?e3 = "?e2\<lparr>metastore := (metastore ?e2)(current_catalog ?e2 \<mapsto> removeAll db ds),
                  trace := trace ?e2 @ [Sql (DropDatabase db)]\<rparr>"
  have s1: "spark_sql (UseCatalog c) e = (Inr [], ?e1)"
    using assms by (rule spark_sql_UseCatalog)
  have "metastore ?e1 (current_catalog ?e1) = Some ds"
    using assms by simp
  then have s2: "spark_sql ShowDatabases ?e1 = (Inr ds, ?e2)"
    by (rule spark_sql_ShowDatabases)
  have "metastore ?e2 (current_catalog ?e2) = Some ds"
    using assms by simp
  then have s3: "spark_sql (DropDatabase db) ?e2 = (Inr [], ?e3)"
    by (rule spark_sql_DropDatabase)
  have u: "(metastore e)(c \<mapsto> ds) = metastore e"
    using assms by (simp add: map_upd_triv)
  have "drop_databases (c # cs) db e =
      (if length (filter (\<lambda>databaseName. databaseName = db) ds) = 1
       then drop_databases cs db ?e3 else drop_databases cs db ?e2)"
    by (simp only: drop_databases.simps s1 s2 s3 prod.case sum.case)
  also have "\<dots> = drop_databases cs db
       (e\<lparr>current_catalog := c, current_database := ''default'',
          metastore := (metastore e)(c \<mapsto>
             (if length (filter (\<lambda>databaseName. databaseName = db) ds) = 1 then removeAll db ds else ds)),
          trace := trace e @ Sql (UseCatalog c) # Sql ShowDatabases #
             (if length (filter (\<lambda>databaseName. databaseName = db) ds) = 1
              then [Sql (DropDatabase db)] else [])\<rparr>)"
    by (simp add: u)
  finally show ?thesis .
qed


lemma drop_databases_completes:
  "\<forall>c\<in>set cs. metastore e c \<noteq> None \<Longrightarrow> fst (drop_databases cs db e) = None"
proof (induction cs arbitrary: e)
  case Nil
  then show ?case by simp
next
  case (Cons c cs)
  from Cons.prems obtain ds where ds: "metastore e c = Some ds" by auto
  show ?case
    unfolding drop_databases_step [OF ds]
    using Cons.prems by (intro Cons.IH) auto
qed


lemma drop_databases_error:
  "fst (drop_databases cs db e) = Some err \<Longrightarrow> \<exists>q. err = SqlError q"
proof (induction cs arbitrary: e)
  case Nil
  then show ?case by simp
next
  case (Cons c cs)
  show ?case
  proof (cases "metastore e c")
    case None
    with Cons.prems show ?thesis
      by (auto simp: drop_databases_raises simp del: drop_databases.simps)
  next
    case (Some ds)
    from Cons.prems show ?thesis
      unfolding drop_databases_step [OF Some] by (rule Cons.IH)
  qed
qed



text \<open>The list of catalogs that the constructor builds has no catalog twice.\<close>

lemma DBAcademyHelper_catalogs_distinct:
  "DBAcademyHelper les cat e = (Inr h, e') \<Longrightarrow> distinct (catalogs h)"
  using DBAcademyHelper_returns [of les cat e] by auto

lemma cleanup_after_streams:
  assumes "\<forall>s\<in>set (streams_active e). \<not> stop_raises s"
  shows "\<exists>e1. stop_streams (streams_active e) e = (None, e1)
     \<and> trace e1 = trace e @ concat (map (\<lambda>s. [StreamStop (name s), StreamAwait (name s)]) (streams_active e))
     \<and> streams_active e1 = []
     \<and> metastore e1 = metastore e
     \<and> cleanup self e =
          (fst (drop_databases (catalogs self) (db_name self) e1), self,
           snd (drop_databases (catalogs self) (db_name self) e1))"
proof -
  define e1 where "e1 = e\<lparr>streams_active := [],
              trace := trace e @ concat (map (\<lambda>s. [StreamStop (name s), StreamAwait (name s)]) (streams_active e))\<rparr>"
  have f: "filter (\<lambda>s. s \<notin> set (streams_active e)) (streams_active e) = []"
    by (simp add: filter_empty_conv)
  have s: "stop_streams (streams_active e) e = (None, e1)"
    unfolding e1_def using stop_streams_returns [OF assms] f by simp
  have "cleanup self e =
          (fst (drop_databases (catalogs self) (db_name self) e1), self,
           snd (drop_databases (catalogs self) (db_name self) e1))"
    by (simp add: cleanup_def s split: prod.splits)
  with s show ?thesis by (auto simp: e1_def)
qed

lemma cleanup_completes:
  assumes "\<forall>s\<in>set (streams_active e). \<not> stop_raises s"
    and "\<forall>c\<in>set (catalogs self). metastore e c \<noteq> None"
  shows "fst (cleanup self e) = None"
proof -
  from cleanup_after_streams [OF assms(1), of self] obtain e1 where
    m: "metastore e1 = metastore e"
    and c: "cleanup self e =
          (fst (drop_databases (catalogs self) (db_name self) e1), self,
           snd (drop_databases (catalogs self) (db_name self) e1))"
    by blast
  have "fst (drop_databases (catalogs self) (db_name self) e1) = None"
    using assms(2) by (intro drop_databases_completes) (simp add: m)
  then show ?thesis unfolding c by simp
qed

lemma cleanup_error:
  assumes "fst (cleanup self e) = Some err"
  shows "(\<exists>s\<in>set (streams_active e). stop_raises s \<and> err = StopError (name s)) \<or> (\<exists>q. err = SqlError q)"
proof (cases "fst (stop_streams (streams_active e) e)")
  case None
  then obtain e1 where s: "stop_streams (streams_active e) e = (None, e1)"
    by (cases "stop_streams (streams_active e) e") auto
  from assms have "fst (drop_databases (catalogs self) (db_name self) e1) = Some err"
    by (simp add: cleanup_def s split: prod.splits)
  then show ?thesis by (auto dest: drop_databases_error)
next
  case (Some err')
  then obtain e1 where s: "stop_streams (streams_active e) e = (Some err', e1)"
    by (cases "stop_streams (streams_active e) e") auto
  with assms have "err' = err" by (simp add: cleanup_def)
  with Some show ?thesis by (auto dest: stop_streams_error)
qed

text \<open>
  Claim C6. No exception of \<^verbatim>\<open>awaitTermination()\<close> leaves \<^verbatim>\<open>cleanup()\<close>, whichever
  queries fail while they terminate. When no \<^verbatim>\<open>stop()\<close> raises, the first loop calls
  \<^verbatim>\<open>stop()\<close> and \<^verbatim>\<open>awaitTermination()\<close> on every active query, in order, and
  \<^verbatim>\<open>cleanup()\<close> goes on with the loop over the catalogs; when the catalogs of the list
  exist as well, \<^verbatim>\<open>cleanup()\<close> returns without an exception.
\<close>

theorem cleanup_buries_awaitTermination_errors:
  "(\<forall>n. fst (cleanup self e) \<noteq> Some (AwaitError n))
   \<and> ((\<forall>s\<in>set (streams_active e). \<not> stop_raises s) \<longrightarrow>
        (\<exists>e1. stop_streams (streams_active e) e = (None, e1)
           \<and> trace e1 = trace e @ concat (map (\<lambda>s. [StreamStop (name s), StreamAwait (name s)]) (streams_active e))
           \<and> streams_active e1 = []
           \<and> metastore e1 = metastore e
           \<and> cleanup self e =
                (fst (drop_databases (catalogs self) (db_name self) e1), self,
                 snd (drop_databases (catalogs self) (db_name self) e1))))
   \<and> ((\<forall>s\<in>set (streams_active e). \<not> stop_raises s) \<and> (\<forall>c\<in>set (catalogs self). metastore e c \<noteq> None) \<longrightarrow>
        fst (cleanup self e) = None)"
proof -
  have 1: "\<forall>n. fst (cleanup self e) \<noteq> Some (AwaitError n)"
    using cleanup_error [of self e] by auto
  from 1 cleanup_after_streams [of e self] cleanup_completes [of e self] show ?thesis
    by blast
qed

theorem cleanup_buries_awaitTermination_errors_witness:
  "fst (awaitTermination bronze jane) = Inl (AwaitError ''bronze'')
   \<and> fst (cleanup DA_main jane) = None
   \<and> (\<exists>e1. stop_streams [bronze, silver] jane = (None, e1)
        \<and> trace e1 = [StreamStop ''bronze'', StreamAwait ''bronze'', StreamStop ''silver'', StreamAwait ''silver'']
        \<and> cleanup DA_main jane =
             (fst (drop_databases [''main'', ''hive_metastore''] ''dbacademy_jane_doe_example_com_ncouc'' e1), DA_main,
              snd (drop_databases [''main'', ''hive_metastore''] ''dbacademy_jane_doe_example_com_ncouc'' e1)))"
proof -
  have a: "fst (awaitTermination bronze jane) = Inl (AwaitError ''bronze'')"
    by (simp add: awaitTermination_def bronze_def Let_def)
  have s: "\<forall>s\<in>set (streams_active jane). \<not> stop_raises s"
    by (simp add: jane_def bronze_def silver_def)
  have c: "\<forall>c\<in>set (catalogs DA_main). metastore jane c \<noteq> None"
    by (simp add: jane_def DA_main_def)
  note w = cleanup_buries_awaitTermination_errors [of DA_main jane]
  from w s c have n: "fst (cleanup DA_main jane) = None" by blast
  from w s obtain e1 where "stop_streams (streams_active jane) jane = (None, e1)"
    and "trace e1 = trace jane @ concat (map (\<lambda>s. [StreamStop (name s), StreamAwait (name s)]) (streams_active jane))"
    and "cleanup DA_main jane =
                (fst (drop_databases (catalogs DA_main) (db_name DA_main) e1), DA_main,
                 snd (drop_databases (catalogs DA_main) (db_name DA_main) e1))"
    by blast
  then have "stop_streams [bronze, silver] jane = (None, e1)
        \<and> trace e1 = [StreamStop ''bronze'', StreamAwait ''bronze'', StreamStop ''silver'', StreamAwait ''silver'']
        \<and> cleanup DA_main jane =
             (fst (drop_databases [''main'', ''hive_metastore''] ''dbacademy_jane_doe_example_com_ncouc'' e1), DA_main,
              snd (drop_databases [''main'', ''hive_metastore''] ''dbacademy_jane_doe_example_com_ncouc'' e1))"
    by (simp add: jane_def DA_main_def bronze_def silver_def)
  with a n show ?thesis by blast
qed



end
